theory Spec2Isabelle
  imports Complex_Main
begin

section \<open>Values exchanged with the MediaWiki API\<close>

text \<open>
  The library passes Python dictionaries to the transport and receives decoded JSON.
  A JSON object is an association list: Python dictionaries keep insertion order, and
  the code reads that order (\<^verbatim>\<open>list(query["pages"].keys())[0]\<close>,
  \<^verbatim>\<open>pages.values()\<close>). Keys of one object are distinct, as they are in a dictionary.
  A character of a string stands for a code point below 256; numbers are integers
  (the code reads no fractional number from a response). Python's \<^verbatim>\<open>None\<close> is \<open>JNull\<close>.
\<close>

datatype json =
    JNull
  | JBool bool
  | JInt int
  | JStr string
  | JList "json list"
  | JObj "(string \<times> json) list"

text \<open>Every exception the modelled code can raise, as a value.\<close>

datatype error =
    KeyError
  | IndexError
  | TypeError
  | AttributeError
  | ValueError
  | AssertionError
  | OverflowError
  | StopIteration
  | HTTPTimeoutError
  | PageError_title json
  | PageError_pageid json
  | RedirectError json

type_synonym 'a result = "error + 'a"

definition bindR :: "'a result \<Rightarrow> ('a \<Rightarrow> 'b result) \<Rightarrow> 'b result" where
  "bindR m f = (case m of Inl e \<Rightarrow> Inl e | Inr x \<Rightarrow> f x)"

fun mapR :: "('a \<Rightarrow> 'b result) \<Rightarrow> 'a list \<Rightarrow> 'b list result" where
  "mapR f [] = Inr []"
| "mapR f (x # xs) =
     (case f x of Inl e \<Rightarrow> Inl e
      | Inr y \<Rightarrow> (case mapR f xs of Inl e \<Rightarrow> Inl e | Inr ys \<Rightarrow> Inr (y # ys)))"

text \<open>Truth value of an object, as \<^verbatim>\<open>not x\<close> and \<^verbatim>\<open>x or y\<close> read it.\<close>

fun truthy :: "json \<Rightarrow> bool" where
  "truthy JNull = False"
| "truthy (JBool b) = b"
| "truthy (JInt i) = (i \<noteq> 0)"
| "truthy (JStr s) = (s \<noteq> [])"
| "truthy (JList xs) = (xs \<noteq> [])"
| "truthy (JObj kvs) = (kvs \<noteq> [])"

text \<open>
  Python's \<^verbatim>\<open>==\<close> on decoded JSON: dictionaries compare as mappings (order of the
  keys does not matter), lists elementwise, and \<^verbatim>\<open>True == 1\<close>.
\<close>

lemma json_size_member [termination_simp]:
  "(k, v) \<in> set kvs \<Longrightarrow> size v < Suc (size_list (\<lambda>x. Suc (size (snd x))) kvs)"
  by (induction kvs) auto

fun py_eq :: "json \<Rightarrow> json \<Rightarrow> bool" where
  "py_eq JNull JNull = True"
| "py_eq (JBool a) (JBool b) = (a = b)"
| "py_eq (JBool a) (JInt i) = (i = (if a then 1 else 0))"
| "py_eq (JInt i) (JBool b) = (i = (if b then 1 else 0))"
| "py_eq (JInt i) (JInt j) = (i = j)"
| "py_eq (JStr s) (JStr t) = (s = t)"
| "py_eq (JList xs) (JList ys) = list_all2 py_eq xs ys"
| "py_eq (JObj a) (JObj b) =
     (length a = length b \<and>
      (\<forall>(k, v) \<in> set a. case map_of b k of None \<Rightarrow> False | Some w \<Rightarrow> py_eq v w))"
| "py_eq _ _ = False"

text \<open>
  \<^verbatim>\<open>d[k]\<close> for a string key, \<^verbatim>\<open>xs[i]\<close> for an integer index (an index below zero
  counts from the end of the sequence).
\<close>

definition py_index :: "'a list \<Rightarrow> int \<Rightarrow> 'a result" where
  "py_index xs i =
     (if 0 \<le> i \<and> i < int (length xs) then Inr (xs ! nat i)
      else if i < 0 \<and> - int (length xs) \<le> i then Inr (xs ! nat (int (length xs) + i))
      else Inl IndexError)"

fun getitem :: "json \<Rightarrow> json \<Rightarrow> json result" where
  "getitem (JObj kvs) (JStr k) =
     (case map_of kvs k of None \<Rightarrow> Inl KeyError | Some v \<Rightarrow> Inr v)"
| "getitem (JObj kvs) (JList _) = Inl TypeError"
| "getitem (JObj kvs) (JObj _) = Inl TypeError"
| "getitem (JObj kvs) _ = Inl KeyError"
| "getitem (JList xs) (JInt i) = py_index xs i"
| "getitem (JList xs) (JBool b) = py_index xs (if b then 1 else 0)"
| "getitem (JStr s) (JInt i) = map_sum id (\<lambda>c. JStr [c]) (py_index s i)"
| "getitem (JStr s) (JBool b) = map_sum id (\<lambda>c. JStr [c]) (py_index s (if b then 1 else 0))"
| "getitem _ _ = Inl TypeError"

abbreviation item :: "json \<Rightarrow> string \<Rightarrow> json result" where
  "item j k \<equiv> getitem j (JStr k)"

text \<open>\<^verbatim>\<open>d.get(k)\<close> and \<^verbatim>\<open>d.get(k, default)\<close>: only dictionaries have the method.\<close>

fun py_get :: "json \<Rightarrow> string \<Rightarrow> json \<Rightarrow> json result" where
  "py_get (JObj kvs) k d = (case map_of kvs k of None \<Rightarrow> Inr d | Some v \<Rightarrow> Inr v)"
| "py_get _ k d = Inl AttributeError"

text \<open>Whether a string occurs in another one, and where (\<^verbatim>\<open>str.find\<close>).\<close>

definition startswith :: "string \<Rightarrow> string \<Rightarrow> bool" where
  "startswith s p = (take (length p) s = p)"

fun find_str :: "string \<Rightarrow> string \<Rightarrow> nat option" where
  "find_str [] sub = (if sub = [] then Some 0 else None)"
| "find_str (c # s) sub =
     (if startswith (c # s) sub then Some 0 else map_option Suc (find_str s sub))"

text \<open>
  \<^verbatim>\<open>x in y\<close>: a key of a dictionary (its keys are strings), an element of a list,
  a substring of a string.
\<close>

fun py_in :: "json \<Rightarrow> json \<Rightarrow> bool result" where
  "py_in (JList _) (JObj kvs) = Inl TypeError"
| "py_in (JObj _) (JObj kvs) = Inl TypeError"
| "py_in (JStr k) (JObj kvs) = Inr (k \<in> set (map fst kvs))"
| "py_in _ (JObj kvs) = Inr False"
| "py_in x (JList xs) = Inr (list_ex (\<lambda>y. py_eq y x) xs)"
| "py_in (JStr k) (JStr s) = Inr (find_str s k \<noteq> None)"
| "py_in _ _ = Inl TypeError"

abbreviation has_key :: "string \<Rightarrow> json \<Rightarrow> bool result" where
  "has_key k j \<equiv> py_in (JStr k) j"

text \<open>\<^verbatim>\<open>len(x)\<close>, \<^verbatim>\<open>for y in x\<close>, \<^verbatim>\<open>x.keys()\<close>, \<^verbatim>\<open>x.values()\<close>.\<close>

fun py_len :: "json \<Rightarrow> nat result" where
  "py_len (JObj kvs) = Inr (length kvs)"
| "py_len (JList xs) = Inr (length xs)"
| "py_len (JStr s) = Inr (length s)"
| "py_len _ = Inl TypeError"

fun py_iter :: "json \<Rightarrow> json list result" where
  "py_iter (JObj kvs) = Inr (map (\<lambda>(k, v). JStr k) kvs)"
| "py_iter (JList xs) = Inr xs"
| "py_iter (JStr s) = Inr (map (\<lambda>c. JStr [c]) s)"
| "py_iter _ = Inl TypeError"

fun py_keys :: "json \<Rightarrow> json list result" where
  "py_keys (JObj kvs) = Inr (map (\<lambda>(k, v). JStr k) kvs)"
| "py_keys _ = Inl AttributeError"

fun py_values :: "json \<Rightarrow> json list result" where
  "py_values (JObj kvs) = Inr (map snd kvs)"
| "py_values _ = Inl AttributeError"

text \<open>
  Request parameters are a Python dictionary that the code builds and then merges
  with the \<^verbatim>\<open>continue\<close> block of a response. Its keys are hashable values: strings
  in what the code writes, and strings, numbers, booleans or \<^verbatim>\<open>None\<close> in what
  \<^verbatim>\<open>dict.update\<close> may bring in. Two keys are the same when they are equal
  (\<^verbatim>\<open>1 == True\<close>). \<^verbatim>\<open>d[k] = v\<close> replaces the value of a key in place, keeping the key
  that is there, and appends a new key; \<^verbatim>\<open>d.update(e)\<close> does so for each entry of
  \<open>e\<close> in order.
\<close>

type_synonym params = "(json \<times> json) list"

fun hashable :: "json \<Rightarrow> bool" where
  "hashable (JList _) = False"
| "hashable (JObj _) = False"
| "hashable _ = True"

fun dict_get :: "params \<Rightarrow> json \<Rightarrow> json option" where
  "dict_get [] k = None"
| "dict_get ((k', v') # d) k = (if py_eq k' k then Some v' else dict_get d k)"

fun dict_set :: "params \<Rightarrow> json \<Rightarrow> json \<Rightarrow> params" where
  "dict_set [] k v = [(k, v)]"
| "dict_set ((k', v') # d) k v =
     (if py_eq k' k then (k', v) # d else (k', v') # dict_set d k v)"

definition dict_update :: "params \<Rightarrow> params \<Rightarrow> params" where
  "dict_update d e = fold (\<lambda>(k, v) d'. dict_set d' k v) e d"

text \<open>A dictionary with string keys, as a dictionary of parameters.\<close>

definition dict_of :: "(string \<times> json) list \<Rightarrow> params" where
  "dict_of kvs = map (\<lambda>(k, v). (JStr k, v)) kvs"

text \<open>
  The transport is a callable with effects (network, rate limiter): a function of
  the parameters and of the state of the world \<open>'w\<close>, returning the decoded response
  or the exception it raised, and the next state.
\<close>

type_synonym 'w request = "params \<Rightarrow> 'w \<Rightarrow> json result \<times> 'w"

section \<open>Configuration (config.py)\<close>

text \<open>
  A \<^verbatim>\<open>datetime.timedelta\<close> is determined by its total number of microseconds;
  the constructor raises OverflowError outside of \<^verbatim>\<open>timedelta.min .. timedelta.max\<close>.
\<close>

datatype timedelta = Timedelta (microseconds: int)

definition timedelta_min :: int where
  "timedelta_min = - 999999999 * 86400000000"

definition timedelta_max :: int where
  "timedelta_max = 999999999 * 86400000000 + 86399999999"

definition timedelta_milliseconds :: "int \<Rightarrow> timedelta result" where
  "timedelta_milliseconds n =
     (if timedelta_min \<le> n * 1000 \<and> n * 1000 \<le> timedelta_max
      then Inr (Timedelta (n * 1000)) else Inl OverflowError)"

definition non_negative :: "timedelta \<Rightarrow> bool" where
  "non_negative d = (0 \<le> microseconds d)"

text \<open>The argument \<^verbatim>\<open>Optional[Union[int, timedelta]]\<close>.\<close>

datatype rate_arg = RateNone | RateInt int | RateDelta timedelta

record config =
  mediawiki_url :: string
  rate_limit :: "timedelta option"
  timeout :: real
  user_agent :: string

definition DEFAULT_TIMEOUT :: real where
  "DEFAULT_TIMEOUT = 3"

definition DEFAULT_USER_AGENT :: string where
  "DEFAULT_USER_AGENT = ''mediawikiapi (https://github.com/Idran/MemoryTauAPI)''"

definition API_URL :: string where
  "API_URL = ''https://www.mysidia.org/trek/api.php''"

definition Config_init :: "string option \<Rightarrow> real option \<Rightarrow> rate_arg \<Rightarrow> config result" where
  "Config_init ua tmo rl =
     bindR (case rl of
              RateInt n \<Rightarrow> map_sum id Some (timedelta_milliseconds n)
            | RateDelta d \<Rightarrow> Inr (Some d)
            | RateNone \<Rightarrow> Inr None)
       (\<lambda>r. Inr \<lparr> mediawiki_url = API_URL,
                  rate_limit = r,
                  timeout = (case tmo of None \<Rightarrow> DEFAULT_TIMEOUT
                             | Some t \<Rightarrow> if t = 0 then DEFAULT_TIMEOUT else t),
                  user_agent = (case ua of None \<Rightarrow> DEFAULT_USER_AGENT
                                | Some u \<Rightarrow> if u = [] then DEFAULT_USER_AGENT else u) \<rparr>)"

definition get_api_url :: "config \<Rightarrow> string" where
  "get_api_url c = mediawiki_url c"

text \<open>The setter of the property \<^verbatim>\<open>rate_limit\<close>.\<close>

definition set_rate_limit :: "config \<Rightarrow> rate_arg \<Rightarrow> config result" where
  "set_rate_limit c rl =
     (case rl of
        RateNone \<Rightarrow> Inr (c\<lparr>rate_limit := None\<rparr>)
      | RateDelta d \<Rightarrow> Inr (c\<lparr>rate_limit := Some d\<rparr>)
      | RateInt n \<Rightarrow> bindR (timedelta_milliseconds n) (\<lambda>d. Inr (c\<lparr>rate_limit := Some d\<rparr>)))"

section \<open>Pages (memorytaupage.py)\<close>

subsection \<open>The object\<close>

text \<open>
  An attribute that \<^verbatim>\<open>__init__\<close> or \<^verbatim>\<open>__load\<close> may not have assigned yet is an
  option: \<open>None\<close> is the absent attribute (\<^verbatim>\<open>hasattr\<close> is false, reading it raises
  AttributeError). The memoised fields \<^verbatim>\<open>_content\<close>, \<^verbatim>\<open>_summary\<close>, ... always exist
  after \<^verbatim>\<open>__init__\<close> has started; they hold \<open>JNull\<close> for Python's \<^verbatim>\<open>None\<close>.
\<close>

record page =
  title :: "json option"
  original_title :: "json option"
  pageid :: "json option"
  url :: "json option"
  pageprops :: "json option"
  disambiguate_pages :: "json list"
  p_markdown :: json
  p_backlinks :: json
  p_backlinks_ids :: json
  p_categories :: json
  p_content :: json
  p_html :: json
  p_links :: json
  p_parent_id :: json
  p_references :: json
  p_revision_id :: json
  p_sections :: json
  p_summary :: json

text \<open>
  A method reads and assigns attributes of \<^verbatim>\<open>self\<close> and calls the transport: it is a
  function of the object and the world that returns a value or the exception raised,
  with the object and the world as they are at that moment.
\<close>

type_synonym ('a, 'w) meth = "page \<Rightarrow> 'w \<Rightarrow> 'a result \<times> page \<times> 'w"

definition returnM :: "'a \<Rightarrow> ('a, 'w) meth" where
  "returnM x p w = (Inr x, p, w)"

definition liftM :: "'a result \<Rightarrow> ('a, 'w) meth" where
  "liftM r p w = (r, p, w)"

definition bindM :: "('a, 'w) meth \<Rightarrow> ('a \<Rightarrow> ('b, 'w) meth) \<Rightarrow> ('b, 'w) meth" where
  "bindM m f p w =
     (case m p w of (Inl e, p', w') \<Rightarrow> (Inl e, p', w') | (Inr x, p', w') \<Rightarrow> f x p' w')"

definition call :: "'w request \<Rightarrow> params \<Rightarrow> (json, 'w) meth" where
  "call request ps p w = (case request ps w of (r, w') \<Rightarrow> (r, p, w'))"

definition attr :: "(page \<Rightarrow> json option) \<Rightarrow> (json, 'w) meth" where
  "attr field p w = ((case field p of None \<Rightarrow> Inl AttributeError | Some v \<Rightarrow> Inr v), p, w)"

definition assign :: "(page \<Rightarrow> page) \<Rightarrow> (unit, 'w) meth" where
  "assign upd p w = (Inr (), upd p, w)"

text \<open>The property \<^verbatim>\<open>__title_query_param\<close>.\<close>

definition title_query_param :: "page \<Rightarrow> (string \<times> json) list result" where
  "title_query_param p =
     (case title p of
        Some t \<Rightarrow> if t \<noteq> JNull then Inr [(''titles'', t)]
                  else (case pageid p of None \<Rightarrow> Inl AttributeError
                        | Some i \<Rightarrow> Inr [(''pageids'', i)])
      | None \<Rightarrow> (case pageid p of None \<Rightarrow> Inl AttributeError
                 | Some i \<Rightarrow> Inr [(''pageids'', i)]))"

subsection \<open>The continuation engine\<close>

text \<open>
  \<^verbatim>\<open>params.update(last_continue)\<close>: \<open>last_continue\<close> is \<^verbatim>\<open>{}\<close> or the \<^verbatim>\<open>continue\<close>
  block of the previous response. \<^verbatim>\<open>dict.update\<close> takes a dictionary, or an iterable
  of key and value pairs. Each element of the iterable must itself be iterable
  (TypeError otherwise) and of length two (ValueError otherwise): a list of two
  values, a string of two characters, or a dictionary of two keys, which gives its two
  keys. The key must be hashable (TypeError otherwise). The elements are taken in
  order, up to the first that raises. The characters of a string are strings of
  length one, so a non-empty string raises ValueError; \<^verbatim>\<open>None\<close>, numbers and
  booleans are not iterable (TypeError).
\<close>

fun update_element :: "json \<Rightarrow> (json \<times> json) result" where
  "update_element (JList xs) = (case xs of [k, v] \<Rightarrow> Inr (k, v) | _ \<Rightarrow> Inl ValueError)"
| "update_element (JStr s) = (case s of [a, b] \<Rightarrow> Inr (JStr [a], JStr [b]) | _ \<Rightarrow> Inl ValueError)"
| "update_element (JObj kvs) =
     (case kvs of [(a, _), (b, _)] \<Rightarrow> Inr (JStr a, JStr b) | _ \<Rightarrow> Inl ValueError)"
| "update_element _ = Inl TypeError"

fun update_pairs :: "params \<Rightarrow> json list \<Rightarrow> params result" where
  "update_pairs ps [] = Inr ps"
| "update_pairs ps (x # xs) =
     (case update_element x of
        Inl e \<Rightarrow> Inl e
      | Inr (k, v) \<Rightarrow> if hashable k then update_pairs (dict_set ps k v) xs else Inl TypeError)"

fun update_continue :: "params \<Rightarrow> json \<Rightarrow> params result" where
  "update_continue ps (JObj kvs) = Inr (dict_update ps (dict_of kvs))"
| "update_continue ps (JList xs) = update_pairs ps xs"
| "update_continue ps (JStr s) = (if s = [] then Inr ps else Inl ValueError)"
| "update_continue ps _ = Inl TypeError"

text \<open>
  What one pass through the body of the \<^verbatim>\<open>while True\<close> loop of
  \<^verbatim>\<open>__continued_query\<close> does with the response: leave the loop at once (no \<^verbatim>\<open>query\<close>,
  or the stall guard), yield and leave (no \<^verbatim>\<open>continue\<close>), or yield and go on with the
  new \<open>last_continue\<close> and \<open>last_len_pages\<close>. The generator is consumed by a list
  comprehension: \<open>f\<close> is what the comprehension computes from each item as it is
  yielded, so an exception of \<open>f\<close> ends the loop before the next request.
\<close>

datatype 'a step = Break | Last "'a list" | More "'a list" json nat

definition stalled :: "json \<Rightarrow> nat \<Rightarrow> json \<Rightarrow> bool result" where
  "stalled last_continue last_len_pages request =
     bindR (has_key ''continue'' request) (\<lambda>c.
       if \<not> c then Inr False
       else bindR (item request ''continue'') (\<lambda>cont.
         if \<not> py_eq last_continue cont then Inr False
         else bindR (item request ''query'') (\<lambda>q.
              bindR (item q ''pages'') (\<lambda>pages.
              bindR (py_len pages) (\<lambda>n. Inr (last_len_pages = n))))))"

definition yielded :: "params \<Rightarrow> json \<Rightarrow> json option \<Rightarrow> json \<Rightarrow> json list result" where
  "yielded query_params prop self_pageid pages =
     (if dict_get query_params (JStr ''generator'') \<noteq> None then py_values pages
      else bindR (case self_pageid of None \<Rightarrow> Inl AttributeError | Some i \<Rightarrow> Inr i) (\<lambda>i.
           bindR (getitem pages i) (\<lambda>pg.
           bindR (py_in prop pg) (\<lambda>present.
             if present
             then bindR (getitem pages i) (\<lambda>pg'. bindR (getitem pg' prop) py_iter)
             else Inr []))))"

definition loop_body ::
  "(json \<Rightarrow> 'a result) \<Rightarrow> params \<Rightarrow> json \<Rightarrow> json option \<Rightarrow> json \<Rightarrow> nat \<Rightarrow> json \<Rightarrow> 'a step result" where
  "loop_body f query_params prop self_pageid last_continue last_len_pages request =
     bindR (has_key ''query'' request) (\<lambda>has_query.
       if \<not> has_query then Inr Break
       else bindR (stalled last_continue last_len_pages request) (\<lambda>stall.
         if stall then Inr Break
         else bindR (item request ''query'') (\<lambda>q.
              bindR (item q ''pages'') (\<lambda>pages.
              bindR (yielded query_params prop self_pageid pages) (\<lambda>items.
              bindR (mapR f items) (\<lambda>ys.
              bindR (has_key ''continue'' request) (\<lambda>c.
                if \<not> c then Inr (Last ys)
                else bindR (item request ''continue'') (\<lambda>cont.
                     bindR (item request ''query'') (\<lambda>q'.
                     bindR (item q' ''pages'') (\<lambda>pages'.
                     bindR (py_len pages') (\<lambda>n. Inr (More ys cont n))))))))))))"

text \<open>
  The loop itself. The transport is arbitrary, so the loop need not end: the result is
  \<open>None\<close> when it runs forever.
\<close>

partial_function (option) continued_loop ::
  "'w request \<Rightarrow> (json \<Rightarrow> 'a result) \<Rightarrow> params \<Rightarrow> json \<Rightarrow> json option \<Rightarrow> json \<Rightarrow> nat
     \<Rightarrow> 'a list \<Rightarrow> 'w \<Rightarrow> ('a list result \<times> 'w) option" where
  "continued_loop request f query_params prop self_pageid last_continue last_len_pages acc w =
     (case update_continue query_params last_continue of
        Inl e \<Rightarrow> Some (Inl e, w)
      | Inr ps \<Rightarrow>
          (case request ps w of
             (Inl e, w') \<Rightarrow> Some (Inl e, w')
           | (Inr r, w') \<Rightarrow>
               (case loop_body f query_params prop self_pageid last_continue last_len_pages r of
                  Inl e \<Rightarrow> Some (Inl e, w')
                | Inr Break \<Rightarrow> Some (Inr acc, w')
                | Inr (Last ys) \<Rightarrow> Some (Inr (acc @ ys), w')
                | Inr (More ys cont n) \<Rightarrow>
                    continued_loop request f query_params prop self_pageid cont n (acc @ ys) w')))"

declare continued_loop.simps [code]

text \<open>\<^verbatim>\<open>query_params.get("prop", None)\<close>\<close>

definition get_prop :: "params \<Rightarrow> json" where
  "get_prop query_params =
     (case dict_get query_params (JStr ''prop'') of None \<Rightarrow> JNull | Some v \<Rightarrow> v)"

definition continued_query ::
  "'w request \<Rightarrow> (json \<Rightarrow> 'a result) \<Rightarrow> page \<Rightarrow> params \<Rightarrow> 'w \<Rightarrow> ('a list result \<times> 'w) option" where
  "continued_query request f p query_params w =
     (case title_query_param p of
        Inl e \<Rightarrow> Some (Inl e, w)
      | Inr tq \<Rightarrow>
          continued_loop request f (dict_update query_params (dict_of tq))
            (get_prop (dict_update query_params (dict_of tq))) (pageid p) (JObj []) 0 [] w)"

text \<open>A mocked server: it answers the calls with the responses of a script, in order.\<close>

definition scripted :: "json list request" where
  "scripted ps w = (case w of [] \<Rightarrow> (Inl StopIteration, []) | r # rs \<Rightarrow> (Inr r, rs))"

subsection \<open>Lazy facets\<close>

definition getM :: "(page \<Rightarrow> 'a result) \<Rightarrow> ('a, 'w) meth" where
  "getM g p w = (g p, p, w)"

definition readM :: "(page \<Rightarrow> 'a) \<Rightarrow> ('a, 'w) meth" where
  "readM g p w = (Inr (g p), p, w)"

text \<open>\<^verbatim>\<open>if not getattr(self, "_x", False): ...\<close>\<close>

definition unlessM :: "(page \<Rightarrow> json) \<Rightarrow> (unit, 'w) meth \<Rightarrow> (unit, 'w) meth" where
  "unlessM field m p w = (if \<not> truthy (field p) then m p w else (Inr (), p, w))"

definition html :: "'w request \<Rightarrow> (json, 'w) meth" where
  "html request =
     bindM (unlessM p_html
       (bindM (attr title) (\<lambda>t.
        bindM (call request [(JStr ''action'', JStr ''parse''), (JStr ''page'', t),
                             (JStr ''prop'', JStr ''text''), (JStr ''formatversion'', JInt 2)]) (\<lambda>r.
        bindM (liftM (bindR (item r ''parse'') (\<lambda>x. item x ''text''))) (\<lambda>v.
        assign (\<lambda>p. p\<lparr>p_html := v\<rparr>))))))
     (\<lambda>_. readM p_html)"

definition markdown :: "'w request \<Rightarrow> (json, 'w) meth" where
  "markdown request =
     bindM (unlessM p_markdown
       (bindM (attr title) (\<lambda>t.
        bindM (call request [(JStr ''action'', JStr ''parse''), (JStr ''page'', t),
                             (JStr ''prop'', JStr ''wikitext''), (JStr ''formatversion'', JInt 2)]) (\<lambda>r.
        bindM (liftM (bindR (item r ''parse'') (\<lambda>x. item x ''wikitext''))) (\<lambda>v.
        assign (\<lambda>p. p\<lparr>p_markdown := v\<rparr>))))))
     (\<lambda>_. readM p_markdown)"

text \<open>\<^verbatim>\<open>request["query"]["pages"][self.pageid]\<close>\<close>

definition own_page :: "json \<Rightarrow> (json, 'w) meth" where
  "own_page r =
     bindM (liftM (bindR (item r ''query'') (\<lambda>q. item q ''pages''))) (\<lambda>pages.
     bindM (attr pageid) (\<lambda>i. liftM (getitem pages i)))"

definition content :: "'w request \<Rightarrow> (json, 'w) meth" where
  "content request =
     bindM (unlessM p_content
       (bindM (getM title_query_param) (\<lambda>tq.
        bindM (call request (dict_update [(JStr ''prop'', JStr ''extracts|revisions''),
                                          (JStr ''explaintext'', JStr []),
                                          (JStr ''rvprop'', JStr ''ids'')] (dict_of tq))) (\<lambda>r.
        bindM (own_page r) (\<lambda>pg.
        bindM (liftM (item pg ''extract'')) (\<lambda>v.
        bindM (assign (\<lambda>p. p\<lparr>p_content := v\<rparr>)) (\<lambda>_.
        bindM (own_page r) (\<lambda>pg.
        bindM (liftM (bindR (item pg ''revisions'') (\<lambda>rs.
                      bindR (getitem rs (JInt 0)) (\<lambda>r0. item r0 ''revid'')))) (\<lambda>v.
        bindM (assign (\<lambda>p. p\<lparr>p_revision_id := v\<rparr>)) (\<lambda>_.
        bindM (own_page r) (\<lambda>pg.
        bindM (liftM (bindR (item pg ''revisions'') (\<lambda>rs.
                      bindR (getitem rs (JInt 0)) (\<lambda>r0. item r0 ''parentid'')))) (\<lambda>v.
        assign (\<lambda>p. p\<lparr>p_parent_id := v\<rparr>)))))))))))))
     (\<lambda>_. readM p_content)"

definition summary :: "'w request \<Rightarrow> (json, 'w) meth" where
  "summary request =
     bindM (unlessM p_summary
       (bindM (getM title_query_param) (\<lambda>tq.
        bindM (call request (dict_update [(JStr ''prop'', JStr ''extracts''),
                                          (JStr ''explaintext'', JStr []),
                                          (JStr ''exintro'', JStr [])] (dict_of tq))) (\<lambda>r.
        bindM (own_page r) (\<lambda>pg.
        bindM (liftM (item pg ''extract'')) (\<lambda>v.
        assign (\<lambda>p. p\<lparr>p_summary := v\<rparr>)))))))
     (\<lambda>_. readM p_summary)"

definition sections :: "'w request \<Rightarrow> (json, 'w) meth" where
  "sections request =
     bindM (unlessM p_sections
       (bindM (getM (\<lambda>p. case title p of
                            Some t \<Rightarrow> if t \<noteq> JNull then Inr (''page'', t)
                                      else (case pageid p of None \<Rightarrow> Inl AttributeError
                                            | Some i \<Rightarrow> Inr (''pageid'', i))
                          | None \<Rightarrow> (case pageid p of None \<Rightarrow> Inl AttributeError
                                     | Some i \<Rightarrow> Inr (''pageid'', i)))) (\<lambda>(k, v).
        bindM (call request (dict_update [(JStr ''action'', JStr ''parse''),
                                          (JStr ''prop'', JStr ''sections'')] [(JStr k, v)])) (\<lambda>r.
        bindM (liftM (bindR (item r ''parse'') (\<lambda>x.
                      bindR (item x ''sections'') (\<lambda>ss.
                      bindR (py_iter ss) (mapR (\<lambda>sec. item sec ''line'')))))) (\<lambda>ls.
        assign (\<lambda>p. p\<lparr>p_sections := JList ls\<rparr>))))))
     (\<lambda>_. readM p_sections)"

text \<open>
  The facets that drain the continuation engine. They return \<open>None\<close> when the engine
  runs forever.
\<close>

type_synonym ('a, 'w) pmeth = "page \<Rightarrow> 'w \<Rightarrow> ('a result \<times> page \<times> 'w) option"

text \<open>
  The local function \<^verbatim>\<open>add_protocol\<close> of \<^verbatim>\<open>references\<close>, and its call on a value of
  the response: only a string has the method \<^verbatim>\<open>startswith\<close>.
\<close>

definition add_protocol :: "string \<Rightarrow> string" where
  "add_protocol u = (if startswith u ''http'' then u else ''http:'' @ u)"

definition call_add_protocol :: "json \<Rightarrow> json result" where
  "call_add_protocol x = (case x of JStr u \<Rightarrow> Inr (JStr (add_protocol u)) | _ \<Rightarrow> Inl AttributeError)"

definition references :: "'w request \<Rightarrow> (json, 'w) pmeth" where
  "references request p w =
     (if \<not> truthy (p_references p)
      then (case continued_query request (\<lambda>link. bindR (item link ''*'') call_add_protocol) p
                   [(JStr ''prop'', JStr ''extlinks''), (JStr ''ellimit'', JStr ''max'')] w of
              None \<Rightarrow> None
            | Some (Inl e, w') \<Rightarrow> Some (Inl e, p, w')
            | Some (Inr urls, w') \<Rightarrow> Some (Inr (JList urls), p\<lparr>p_references := JList urls\<rparr>, w'))
      else Some (Inr (p_references p), p, w))"

definition links :: "'w request \<Rightarrow> (json, 'w) pmeth" where
  "links request p w =
     (if \<not> truthy (p_links p)
      then (case continued_query request (\<lambda>link. item link ''title'') p
                   [(JStr ''prop'', JStr ''links''), (JStr ''plnamespace'', JInt 0),
                    (JStr ''pllimit'', JStr ''max'')] w of
              None \<Rightarrow> None
            | Some (Inl e, w') \<Rightarrow> Some (Inl e, p, w')
            | Some (Inr ts, w') \<Rightarrow> Some (Inr (JList ts), p\<lparr>p_links := JList ts\<rparr>, w'))
      else Some (Inr (p_links p), p, w))"

text \<open>\<^verbatim>\<open>[link["pageid"] for link in links if "pageid" in link]\<close>\<close>

fun pageids_of :: "json list \<Rightarrow> json list result" where
  "pageids_of [] = Inr []"
| "pageids_of (link # ls) =
     bindR (has_key ''pageid'' link) (\<lambda>c.
       if c then bindR (item link ''pageid'') (\<lambda>i. bindR (pageids_of ls) (\<lambda>is. Inr (i # is)))
       else pageids_of ls)"

definition backlinks :: "'w request \<Rightarrow> (json, 'w) pmeth" where
  "backlinks request p w =
     (if \<not> truthy (p_backlinks p)
      then (case title_query_param p of
              Inl e \<Rightarrow> Some (Inl e, p, w)
            | Inr tq \<Rightarrow>
               (case continued_query request Inr p
                       [(JStr ''list'', JStr ''backlinks''), (JStr ''generator'', JStr ''links''),
                        (JStr ''bltitle'', JObj tq), (JStr ''blfilterredir'', JStr ''redirects'')] w of
                  None \<Rightarrow> None
                | Some (Inl e, w') \<Rightarrow> Some (Inl e, p, w')
                | Some (Inr ls, w') \<Rightarrow>
                    (case mapR (\<lambda>link. item link ''title'') ls of
                       Inl e \<Rightarrow> Some (Inl e, p, w')
                     | Inr ts \<Rightarrow>
                         (case pageids_of ls of
                            Inl e \<Rightarrow> Some (Inl e, p\<lparr>p_backlinks := JList ts\<rparr>, w')
                          | Inr is \<Rightarrow>
                              Some (Inr (JList ts),
                                    p\<lparr>p_backlinks := JList ts, p_backlinks_ids := JList is\<rparr>, w')))))
      else Some (Inr (p_backlinks p), p, w))"

text \<open>\<^verbatim>\<open>re.sub(r"^Category:", "", x)\<close>: the pattern is anchored at the start of the string.\<close>

definition strip_category :: "string \<Rightarrow> string" where
  "strip_category x = (if startswith x ''Category:'' then drop (length ''Category:'') x else x)"

definition re_sub_category :: "json \<Rightarrow> json result" where
  "re_sub_category x = (case x of JStr t \<Rightarrow> Inr (JStr (strip_category t)) | _ \<Rightarrow> Inl TypeError)"

definition categories :: "'w request \<Rightarrow> (json, 'w) pmeth" where
  "categories request p w =
     (if \<not> truthy (p_categories p)
      then (case continued_query request (\<lambda>link. item link ''title'') p
                   [(JStr ''prop'', JStr ''categories''), (JStr ''cllimit'', JStr ''max'')] w of
              None \<Rightarrow> None
            | Some (Inl e, w') \<Rightarrow> Some (Inl e, p, w')
            | Some (Inr ts, w') \<Rightarrow>
                (case mapR re_sub_category ts of
                   Inl e \<Rightarrow> Some (Inl e, p, w')
                 | Inr cs \<Rightarrow> Some (Inr (JList cs), p\<lparr>p_categories := JList cs\<rparr>, w')))
      else Some (Inr (p_categories p), p, w))"

subsection \<open>The text of one section\<close>











subsection \<open>Construction\<close>

text \<open>
  \<^verbatim>\<open>__load\<close>. The list items of a disambiguation page are read with BeautifulSoup,
  a library outside of the repository: \<open>soup\<close> stands for the titles it extracts from
  the markup (the \<^verbatim>\<open>title\<close> of the first anchor of each list item that is no
  table-of-contents entry), or the exception raised on the way.

  Where the response shows a redirect and \<open>redirect\<close> is set, the code calls
  \<^verbatim>\<open>self.__init__(redirects["to"], redirect=..., preload=..., request=self.request)\<close>.
  The first parameter of \<^verbatim>\<open>__init__\<close> after \<^verbatim>\<open>self\<close> is \<^verbatim>\<open>request\<close>, so this call
  gives \<^verbatim>\<open>request\<close> both by position and by keyword: Python raises TypeError when it
  binds the arguments, after evaluating them and before running any of the body.
\<close>

definition load_params :: "page \<Rightarrow> params result" where
  "load_params p =
     (let query_params = [(JStr ''prop'', JStr ''info|pageprops''), (JStr ''inprop'', JStr ''url''),
                          (JStr ''redirects'', JStr [])]
      in case pageid p of
           None \<Rightarrow> (case title p of None \<Rightarrow> Inl AttributeError
                     | Some t \<Rightarrow> Inr (dict_set query_params (JStr ''titles'') t))
         | Some i \<Rightarrow>
             if \<not> truthy i
             then (case title p of None \<Rightarrow> Inl AttributeError
                   | Some t \<Rightarrow> Inr (dict_set query_params (JStr ''titles'') t))
             else Inr (dict_set query_params (JStr ''pageids'') i))"

definition raise_missing :: "(unit, 'w) meth" where
  "raise_missing p w =
     (case title p of
        Some t \<Rightarrow> (Inl (PageError_title t), p, w)
      | None \<Rightarrow> (case pageid p of
                   Some i \<Rightarrow> (Inl (PageError_pageid i), p, w)
                 | None \<Rightarrow> (Inl AttributeError, p, w)))"

text \<open>\<^verbatim>\<open>"redirects" in query and page["title"] != query["redirects"][0]["to"]\<close>\<close>

definition redirected :: "json \<Rightarrow> json \<Rightarrow> bool result" where
  "redirected query pg =
     bindR (has_key ''redirects'' query) (\<lambda>c.
       if \<not> c then Inr False
       else bindR (item pg ''title'') (\<lambda>t.
            bindR (item query ''redirects'') (\<lambda>rs.
            bindR (getitem rs (JInt 0)) (\<lambda>r0.
            bindR (item r0 ''to'') (\<lambda>target. Inr (\<not> py_eq t target))))))"

definition follow_redirect :: "json \<Rightarrow> (unit, 'w) meth" where
  "follow_redirect query =
     bindM (liftM (bindR (item query ''redirects'') (\<lambda>rs. getitem rs (JInt 0)))) (\<lambda>redirects.
     bindM (liftM (has_key ''normalized'' query)) (\<lambda>norm.
     bindM (if norm
            then bindM (liftM (bindR (item query ''normalized'') (\<lambda>ns. getitem ns (JInt 0)))) (\<lambda>normalized.
                 bindM (liftM (item normalized ''from'')) (\<lambda>nf.
                 bindM (attr title) (\<lambda>t.
                   if \<not> py_eq nf t then liftM (Inl AssertionError)
                   else liftM (item normalized ''to''))))
            else (\<lambda>p w. case title p of
                           Some t \<Rightarrow> (Inr t, p, w)
                         | None \<Rightarrow> (item redirects ''from'', p, w))) (\<lambda>from_title.
     bindM (liftM (item redirects ''from'')) (\<lambda>rf.
       if \<not> py_eq rf from_title then liftM (Inl AssertionError)
       else bindM (liftM (item redirects ''to'')) (\<lambda>_. liftM (Inl TypeError))))))"

definition raise_redirect :: "json \<Rightarrow> (unit, 'w) meth" where
  "raise_redirect pg =
     bindM (liftM (item pg ''title'')) (\<lambda>pt.
       (\<lambda>p w. (Inl (RedirectError (case title p of Some t \<Rightarrow> t | None \<Rightarrow> pt)), p, w)))"

definition disambiguation :: "'w request \<Rightarrow> (json \<Rightarrow> json list result) \<Rightarrow> json \<Rightarrow> json \<Rightarrow> (unit, 'w) meth" where
  "disambiguation request soup pid pg =
     bindM (liftM (bindR (has_key ''pageprops'' pg) (\<lambda>c.
                     if \<not> c then Inr False
                     else bindR (item pg ''pageprops'') (has_key ''disambiguation'')))) (\<lambda>dis.
       if \<not> dis then returnM ()
       else bindM (getM (\<lambda>p. let query_params = [(JStr ''prop'', JStr ''revisions''),
                                                  (JStr ''rvprop'', JStr ''content''),
                                                  (JStr ''rvlimit'', JInt 1)]
                             in case pageid p of
                                  Some i \<Rightarrow> Inr (dict_set query_params (JStr ''pageids'') i)
                                | None \<Rightarrow> (case title p of
                                             Some t \<Rightarrow> Inr (dict_set query_params (JStr ''titles'') t)
                                           | None \<Rightarrow> Inl AttributeError))) (\<lambda>query_params.
            bindM (call request query_params) (\<lambda>r.
            bindM (liftM (bindR (item r ''query'') (\<lambda>q.
                          bindR (item q ''pages'') (\<lambda>ps.
                          bindR (getitem ps pid) (\<lambda>x.
                          bindR (item x ''revisions'') (\<lambda>rs.
                          bindR (getitem rs (JInt 0)) (\<lambda>r0.
                          bindR (item r0 ''*'') soup))))))) (\<lambda>ts.
            assign (\<lambda>p. p\<lparr>disambiguate_pages := disambiguate_pages p @ ts\<rparr>)))))"

definition load :: "'w request \<Rightarrow> (json \<Rightarrow> json list result) \<Rightarrow> bool \<Rightarrow> bool \<Rightarrow> (unit, 'w) meth" where
  "load request soup redirect preload =
     bindM (getM load_params) (\<lambda>query_params.
     bindM (call request query_params) (\<lambda>r.
     bindM (liftM (item r ''query'')) (\<lambda>query.
     bindM (liftM (bindR (item query ''pages'') (\<lambda>ps.
                   bindR (py_keys ps) (\<lambda>ks. py_index ks 0)))) (\<lambda>pid.
     bindM (liftM (bindR (item query ''pages'') (\<lambda>ps. getitem ps pid))) (\<lambda>pg.
     bindM (liftM (has_key ''missing'' pg)) (\<lambda>missing.
     bindM (if missing then raise_missing
            else bindM (liftM (redirected query pg)) (\<lambda>redir.
                   if redir then (if redirect then follow_redirect query else raise_redirect pg)
                   else returnM ())) (\<lambda>_.
     bindM (assign (\<lambda>p. p\<lparr>pageid := Some pid\<rparr>)) (\<lambda>_.
     bindM (liftM (py_get pg ''title'' JNull)) (\<lambda>t.
     bindM (assign (\<lambda>p. p\<lparr>title := Some t\<rparr>)) (\<lambda>_.
     bindM (liftM (py_get pg ''fullurl'' JNull)) (\<lambda>u.
     bindM (assign (\<lambda>p. p\<lparr>url := Some u\<rparr>)) (\<lambda>_.
     bindM (liftM (py_get pg ''pageprops'' (JObj []))) (\<lambda>pp.
     bindM (assign (\<lambda>p. p\<lparr>pageprops := Some pp, disambiguate_pages := []\<rparr>)) (\<lambda>_.
     disambiguation request soup pid pg))))))))))))))"

text \<open>
  The loop of \<^verbatim>\<open>__init__\<close> under \<^verbatim>\<open>preload\<close> reads \<^verbatim>\<open>getattr(self, prop)\<close> for each
  name of a fixed tuple. Five of the names are properties of the class; the class
  defines no attribute \<^verbatim>\<open>images\<close> or \<^verbatim>\<open>infobox\<close>, and no \<^verbatim>\<open>__getattr__\<close>, so reading
  either raises AttributeError.
\<close>

definition preload_props :: "string list" where
  "preload_props = [''content'', ''summary'', ''images'', ''references'', ''links'',
                    ''sections'', ''infobox'']"

definition someM :: "('a, 'w) meth \<Rightarrow> ('a, 'w) pmeth" where
  "someM m p w = Some (m p w)"

definition getattr_prop :: "'w request \<Rightarrow> string \<Rightarrow> (json, 'w) pmeth" where
  "getattr_prop request name =
     (if name = ''content'' then someM (content request)
      else if name = ''summary'' then someM (summary request)
      else if name = ''references'' then references request
      else if name = ''links'' then links request
      else if name = ''sections'' then someM (sections request)
      else someM (liftM (Inl AttributeError)))"

fun preload_loop :: "'w request \<Rightarrow> string list \<Rightarrow> (unit, 'w) pmeth" where
  "preload_loop request [] p w = Some (Inr (), p, w)"
| "preload_loop request (name # names) p w =
     (case getattr_prop request name p w of
        None \<Rightarrow> None
      | Some (Inl e, p', w') \<Rightarrow> Some (Inl e, p', w')
      | Some (Inr _, p', w') \<Rightarrow> preload_loop request names p' w')"

text \<open>
  \<^verbatim>\<open>__init__\<close>, a method of the object under construction. The arguments \<open>title_arg\<close>
  and \<open>pageid_arg\<close> are \<open>JNull\<close> for \<^verbatim>\<open>None\<close>.
\<close>

definition reset_facets :: "page \<Rightarrow> page" where
  "reset_facets p =
     p\<lparr>p_markdown := JNull, p_backlinks := JNull, p_backlinks_ids := JNull,
       p_categories := JNull, p_content := JNull, p_html := JNull, p_links := JNull,
       p_parent_id := JNull, p_references := JNull, p_revision_id := JNull,
       p_sections := JNull, p_summary := JNull\<rparr>"

definition init ::
  "'w request \<Rightarrow> (json \<Rightarrow> json list result) \<Rightarrow> json \<Rightarrow> json \<Rightarrow> bool \<Rightarrow> bool \<Rightarrow> string
     \<Rightarrow> (unit, 'w) pmeth" where
  "init request soup title_arg pageid_arg redirect preload original_title_arg p w =
     (case bindM (assign reset_facets) (\<lambda>_.
           bindM (if title_arg \<noteq> JNull
                  then assign (\<lambda>p. p\<lparr>title := Some title_arg,
                                      original_title := Some (if original_title_arg \<noteq> []
                                                              then JStr original_title_arg
                                                              else title_arg)\<rparr>)
                  else if pageid_arg \<noteq> JNull
                  then assign (\<lambda>p. p\<lparr>pageid := Some pageid_arg\<rparr>)
                  else liftM (Inl ValueError)) (\<lambda>_.
           load request soup redirect preload)) p w of
        (Inl e, p', w') \<Rightarrow> Some (Inl e, p', w')
      | (Inr _, p', w') \<Rightarrow>
          if preload then preload_loop request preload_props p' w' else Some (Inr (), p', w'))"

text \<open>The object before \<^verbatim>\<open>__init__\<close> runs has no attribute.\<close>

definition blank :: page where
  "blank = \<lparr> title = None, original_title = None, pageid = None, url = None,
             pageprops = None, disambiguate_pages = [],
             p_markdown = JNull, p_backlinks = JNull, p_backlinks_ids = JNull,
             p_categories = JNull, p_content = JNull, p_html = JNull, p_links = JNull,
             p_parent_id = JNull, p_references = JNull, p_revision_id = JNull,
             p_sections = JNull, p_summary = JNull \<rparr>"

text \<open>
  The constructor call \<^verbatim>\<open>MemoryTauPage(...)\<close>: the caller gets the object only when
  \<^verbatim>\<open>__init__\<close> raises nothing.
\<close>

definition MemoryTauPage ::
  "'w request \<Rightarrow> (json \<Rightarrow> json list result) \<Rightarrow> json \<Rightarrow> json \<Rightarrow> bool \<Rightarrow> bool \<Rightarrow> string
     \<Rightarrow> 'w \<Rightarrow> (page result \<times> 'w) option" where
  "MemoryTauPage request soup title_arg pageid_arg redirect preload original_title_arg w =
     (case init request soup title_arg pageid_arg redirect preload original_title_arg blank w of
        None \<Rightarrow> None
      | Some (Inl e, p, w') \<Rightarrow> Some (Inl e, w')
      | Some (Inr _, p, w') \<Rightarrow> Some (Inr p, w'))"

section \<open>The client facade (memorytauapi.py)\<close>

text \<open>
  \<^verbatim>\<open>session.request(params, config)\<close> is the transport with its configuration.
  \<^verbatim>\<open>random\<close> returns either the only title or the list of titles.
\<close>

type_synonym 'w session = "params \<Rightarrow> config \<Rightarrow> 'w \<Rightarrow> json result \<times> 'w"

definition random_api :: "'w session \<Rightarrow> config \<Rightarrow> int \<Rightarrow> 'w \<Rightarrow> json result \<times> 'w" where
  "random_api session cfg pages w =
     (let query_params = [(JStr ''list'', JStr ''random''), (JStr ''rnnamespace'', JInt 0),
                          (JStr ''rnlimit'', JInt pages)]
      in case session query_params cfg w of
           (Inl e, w') \<Rightarrow> (Inl e, w')
         | (Inr request, w') \<Rightarrow>
             (bindR (item request ''query'') (\<lambda>q.
              bindR (item q ''random'') (\<lambda>r.
              bindR (py_iter r) (\<lambda>ps.
              bindR (mapR (\<lambda>pg. item pg ''title'') ps) (\<lambda>titles.
                if length titles = 1 then py_index titles 0 else Inr (JList titles))))), w'))"

text \<open>
  \<^verbatim>\<open>page\<close>. The search it runs under \<^verbatim>\<open>auto_suggest\<close> is memoised by a decorator of
  \<^verbatim>\<open>util.py\<close>, which is not among the sources: \<open>search\<close> stands for the
  decorated method called with \<^verbatim>\<open>results=1, suggestion=True\<close>; it returns the list of results
  and the suggestion.
\<close>

definition api_page ::
  "'w session \<Rightarrow> (json \<Rightarrow> json list result) \<Rightarrow> (json \<Rightarrow> 'w \<Rightarrow> (json list \<times> json) result \<times> 'w)
     \<Rightarrow> config \<Rightarrow> json \<Rightarrow> json \<Rightarrow> bool \<Rightarrow> bool \<Rightarrow> bool \<Rightarrow> 'w \<Rightarrow> (page result \<times> 'w) option" where
  "api_page session soup search cfg title_arg pageid_arg auto_suggest redirect preload w =
     (let request_f = (\<lambda>ps. session ps cfg) in
      if title_arg \<noteq> JNull then
        (if auto_suggest then
           (case search title_arg w of
              (Inl e, w') \<Rightarrow> Some (Inl e, w')
            | (Inr (results, suggestion), w') \<Rightarrow>
                if truthy suggestion
                then MemoryTauPage request_f soup suggestion pageid_arg redirect preload [] w'
                else (case results of
                        [] \<Rightarrow> Some (Inl (PageError_title title_arg), w')
                      | t # _ \<Rightarrow> MemoryTauPage request_f soup t JNull redirect preload [] w'))
         else MemoryTauPage request_f soup title_arg JNull redirect preload [] w)
      else if pageid_arg \<noteq> JNull
      then MemoryTauPage request_f soup JNull pageid_arg True preload [] w
      else Some (Inl ValueError, w))"

definition is_PageError :: "error \<Rightarrow> bool" where
  "is_PageError e = (case e of PageError_title _ \<Rightarrow> True | PageError_pageid _ \<Rightarrow> True | _ \<Rightarrow> False)"

section \<open>Statements of the specification and sample data\<close>





text \<open>Whether a call returned a value.\<close>

definition succeeds :: "'a result \<times> 's \<Rightarrow> bool" where
  "succeeds r = (case fst r of Inr _ \<Rightarrow> True | Inl _ \<Rightarrow> False)"

definition drained :: "('a result \<times> 's) option \<Rightarrow> bool" where
  "drained r = (case r of Some x \<Rightarrow> succeeds x | None \<Rightarrow> False)"

text \<open>
  Sample data: a loaded page, responses of the API for it, a server that answers
  every request with the same response and counts the requests, and a parser of
  disambiguation pages that finds no list item.
\<close>

definition enterprise :: page where
  "enterprise = blank\<lparr>title := Some (JStr ''Enterprise''), pageid := Some (JStr ''42'')\<rparr>"

definition enterprise_loaded :: page where
  "enterprise_loaded =
     blank\<lparr>title := Some (JStr ''Enterprise''), original_title := Some (JStr ''Enterprise''),
           pageid := Some (JStr ''42''),
           url := Some (JStr ''https://www.mysidia.org/trek/Enterprise''),
           pageprops := Some (JObj [])\<rparr>"

definition own_response :: "string \<Rightarrow> json \<Rightarrow> json" where
  "own_response k v = JObj [(''query'', JObj [(''pages'', JObj [(''42'', JObj [(k, v)])])])]"

definition enterprise_response :: "string \<Rightarrow> json \<Rightarrow> json" where
  "enterprise_response extract extlinks =
     JObj [(''query'', JObj [(''pages'', JObj [(''42'', JObj
             [(''pageid'', JInt 42), (''title'', JStr ''Enterprise''),
              (''fullurl'', JStr ''https://www.mysidia.org/trek/Enterprise''),
              (''extract'', JStr extract),
              (''revisions'', JList [JObj [(''revid'', JInt 7), (''parentid'', JInt 6)]]),
              (''extlinks'', extlinks),
              (''links'', JList [JObj [(''ns'', JInt 0), (''title'', JStr ''Starfleet'')]]),
              (''categories'', JList [JObj [(''ns'', JInt 14), (''title'', JStr ''Category:Starships'')]])])])]),
           (''parse'', JObj [(''text'', JStr ''<p>A starship.</p>''),
                            (''wikitext'', JStr ''A starship.''),
                            (''sections'', JList [JObj [(''line'', JStr ''History'')]])])]"

definition starship :: json where
  "starship = enterprise_response ''A starship.'' (JList [JObj [(''*'', JStr ''//example.org/ncc'')]])"

definition redirect_response :: "string \<Rightarrow> json" where
  "redirect_response page_title =
     JObj [(''query'', JObj
       [(''redirects'', JList [JObj [(''from'', JStr ''Kirk''), (''to'', JStr ''James T. Kirk'')]]),
        (''pages'', JObj [(''42'', JObj [(''pageid'', JInt 42), (''title'', JStr page_title),
                                       (''fullurl'', JStr ''https://www.mysidia.org/trek/Kirk'')])])])]"







definition counting :: "json \<Rightarrow> nat request" where
  "counting response ps n = (Inr response, Suc n)"

definition no_soup :: "json \<Rightarrow> json list result" where
  "no_soup markup = Inr []"



section \<open>Properties\<close>

lemmas meth_defs = bindM_def returnM_def liftM_def call_def attr_def assign_def getM_def
  readM_def unlessM_def someM_def

lemmas fixture_defs = enterprise_def blank_def own_response_def scripted_def
lemmas engine_defs = continued_query_def title_query_param_def dict_update_def dict_of_def
  loop_body_def stalled_def yielded_def bindR_def get_prop_def


lemmas starship_defs = counting_def starship_def enterprise_response_def enterprise_loaded_def
  blank_def


subsection \<open>Configuration\<close>

text \<open>
  C8 (as amended). A construction of \<open>Config\<close> or an assignment to \<^verbatim>\<open>rate_limit\<close> that
  raises nothing leaves the interval unset for \<^verbatim>\<open>None\<close>, equal to the given duration
  for a duration, and equal to the duration of \<open>n\<close> milliseconds for an integer \<open>n\<close>.
  The interval is non-negative whenever the argument is a non-negative integer or a
  non-negative duration; nothing in the code rejects a negative argument. Both
  operations raise only for an integer outside of the range of \<^verbatim>\<open>timedelta\<close>.
\<close>

theorem rate_limit_interval:
  "(Config_init ua tmo rl = Inr c \<longrightarrow>
      rate_limit c = (case rl of RateNone \<Rightarrow> None | RateInt n \<Rightarrow> Some (Timedelta (n * 1000))
                      | RateDelta d \<Rightarrow> Some d)) \<and>
   (set_rate_limit c0 rl = Inr c' \<longrightarrow>
      rate_limit c' = (case rl of RateNone \<Rightarrow> None | RateInt n \<Rightarrow> Some (Timedelta (n * 1000))
                       | RateDelta d \<Rightarrow> Some d)) \<and>
   ((case rl of RateNone \<Rightarrow> True | RateInt n \<Rightarrow> 0 \<le> n | RateDelta d \<Rightarrow> non_negative d) \<longrightarrow>
      (\<forall>k. Config_init ua tmo rl = Inr k \<or> set_rate_limit c0 rl = Inr k \<longrightarrow>
         (case rate_limit k of None \<Rightarrow> True | Some d \<Rightarrow> non_negative d))) \<and>
   ((\<exists>k. Config_init ua tmo rl = Inr k) =
      (case rl of RateInt n \<Rightarrow> timedelta_min \<le> n * 1000 \<and> n * 1000 \<le> timedelta_max | _ \<Rightarrow> True)) \<and>
   ((\<exists>k. set_rate_limit c0 rl = Inr k) =
      (case rl of RateInt n \<Rightarrow> timedelta_min \<le> n * 1000 \<and> n * 1000 \<le> timedelta_max | _ \<Rightarrow> True))"
  by (cases rl)
     (auto simp: Config_init_def set_rate_limit_def bindR_def timedelta_milliseconds_def
        non_negative_def split: if_splits)

text \<open>The test of the repository: \<^verbatim>\<open>Config(rate_limit=10).rate_limit == timedelta(milliseconds=10)\<close>.\<close>

theorem rate_limit_interval_witness:
  "map_sum id rate_limit (Config_init None None (RateInt 10)) = Inr (Some (Timedelta 10000)) \<and>
   non_negative (Timedelta 10000)"
  using rate_limit_interval [of None None "RateInt 10"
      "\<lparr> mediawiki_url = API_URL, rate_limit = Some (Timedelta 10000), timeout = DEFAULT_TIMEOUT,
         user_agent = DEFAULT_USER_AGENT \<rparr>"]
  by (simp add: Config_init_def bindR_def timedelta_milliseconds_def timedelta_min_def
        timedelta_max_def non_negative_def)

text \<open>\<^verbatim>\<open>Config(rate_limit=-5)\<close> holds an interval of minus five milliseconds.\<close>

theorem rate_limit_negative_counterexample:
  "map_sum id rate_limit (Config_init None None (RateInt (- 5))) = Inr (Some (Timedelta (- 5000))) \<and>
   \<not> non_negative (Timedelta (- 5000))"
  by (simp add: Config_init_def bindR_def timedelta_milliseconds_def timedelta_min_def
        timedelta_max_def non_negative_def)

subsection \<open>Random titles\<close>

text \<open>
  C10. When the response lists the random pages and each of them has a title,
  \<^verbatim>\<open>random\<close> returns the title itself if there is exactly one, and the list of the
  titles if there is none or more than one.
\<close>

theorem random_bare_or_list:
  assumes "session [(JStr ''list'', JStr ''random''), (JStr ''rnnamespace'', JInt 0),
                    (JStr ''rnlimit'', JInt pages)] cfg w = (Inr r, w')"
    and "item r ''query'' = Inr q"
    and "item q ''random'' = Inr rnd"
    and "py_iter rnd = Inr ps"
    and "mapR (\<lambda>pg. item pg ''title'') ps = Inr titles"
  shows "random_api session cfg pages w =
           (Inr (case titles of [t] \<Rightarrow> t | _ \<Rightarrow> JList titles), w')"
  using assms
  by (auto simp: random_api_def bindR_def py_index_def length_Suc_conv split: list.splits)

theorem random_bare_or_list_witness:
  "random_api (\<lambda>ps cfg w. (Inr (JObj [(''query'', JObj [(''random'',
        JList [JObj [(''id'', JInt 7), (''title'', JStr ''Spock'')]])])]), Suc w))
     \<lparr> mediawiki_url = API_URL, rate_limit = None, timeout = DEFAULT_TIMEOUT,
         user_agent = DEFAULT_USER_AGENT \<rparr> 1 0 = (Inr (JStr ''Spock''), 1)"
  using random_bare_or_list [of "\<lambda>ps cfg w. (Inr (JObj [(''query'', JObj [(''random'',
        JList [JObj [(''id'', JInt 7), (''title'', JStr ''Spock'')]])])]), Suc w)" 1
     "\<lparr> mediawiki_url = API_URL, rate_limit = None, timeout = DEFAULT_TIMEOUT,
         user_agent = DEFAULT_USER_AGENT \<rparr>" 0
     "JObj [(''query'', JObj [(''random'',
        JList [JObj [(''id'', JInt 7), (''title'', JStr ''Spock'')]])])]" 1
     "JObj [(''random'', JList [JObj [(''id'', JInt 7), (''title'', JStr ''Spock'')]])]"
     "JList [JObj [(''id'', JInt 7), (''title'', JStr ''Spock'')]]"
     "[JObj [(''id'', JInt 7), (''title'', JStr ''Spock'')]]" "[JStr ''Spock'']"]
  by simp

subsection \<open>Neither a title nor a page id\<close>

text \<open>
  C5 (as amended). A construction with neither a title nor a page id fails with
  ValueError, the invalid-argument error, in the constructor of the page and in
  \<^verbatim>\<open>page\<close> of the facade alike, before any request is made.
\<close>

theorem neither_title_nor_pageid:
  "MemoryTauPage request soup JNull JNull redirect preload orig w = Some (Inl ValueError, w) \<and>
   api_page session soup search cfg JNull JNull auto_suggest redirect preload w
     = Some (Inl ValueError, w)"
  by (simp add: MemoryTauPage_def init_def api_page_def meth_defs)

theorem neither_title_nor_pageid_witness:
  "MemoryTauPage scripted (\<lambda>h. Inr []) JNull JNull True True [] [JNull]
     = Some (Inl ValueError, [JNull])"
  using neither_title_nor_pageid [of scripted "\<lambda>h. Inr []" True True "[]" "[JNull]"]
  by simp

text \<open>The error raised is no PageError.\<close>

theorem not_PageError_counterexample:
  "MemoryTauPage scripted (\<lambda>h. Inr []) JNull JNull True False [] []
     = Some (Inl ValueError, []) \<and> \<not> is_PageError ValueError"
  by (simp add: MemoryTauPage_def init_def meth_defs is_PageError_def)

subsection \<open>Resolution without following redirects\<close>

text \<open>
  The guard of \<^verbatim>\<open>__load\<close> that raises RedirectError: the response does not mark the
  page missing, its query carries \<^verbatim>\<open>redirects\<close>, and the title of the returned page
  differs from the target of the first redirect. The error carries the requested
  title, or the title of the returned page when the page was requested by id.
\<close>

lemma redirect_refused:
  assumes "title_arg \<noteq> JNull \<or> truthy pageid_arg"
    and "request [(JStr ''prop'', JStr ''info|pageprops''), (JStr ''inprop'', JStr ''url''),
                  (JStr ''redirects'', JStr []),
                  (if title_arg \<noteq> JNull then (JStr ''titles'', title_arg)
                   else (JStr ''pageids'', pageid_arg))] w = (Inr r, w')"
    and "item r ''query'' = Inr query"
    and "item query ''pages'' = Inr pages"
    and "py_keys pages = Inr (pid # others)"
    and "getitem pages pid = Inr pg"
    and "has_key ''missing'' pg = Inr False"
    and "has_key ''redirects'' query = Inr True"
    and "item pg ''title'' = Inr page_title"
    and "item query ''redirects'' = Inr redirects"
    and "getitem redirects (JInt 0) = Inr first"
    and "item first ''to'' = Inr target"
    and "\<not> py_eq page_title target"
  shows "MemoryTauPage request soup title_arg pageid_arg False preload orig w
           = Some (Inl (RedirectError (if title_arg \<noteq> JNull then title_arg else page_title)), w')"
proof (cases "title_arg = JNull")
  case False
  with assms(2-) show ?thesis
    by (simp add: MemoryTauPage_def init_def load_def load_params_def reset_facets_def blank_def
        redirected_def raise_redirect_def meth_defs bindR_def py_index_def)
next
  case True
  with assms(1) have "truthy pageid_arg" "pageid_arg \<noteq> JNull" by auto
  with True assms(2-) show ?thesis
    by (simp add: MemoryTauPage_def init_def load_def load_params_def reset_facets_def blank_def
        redirected_def raise_redirect_def meth_defs bindR_def py_index_def)
qed

lemma redirect_refused_example:
  "MemoryTauPage scripted no_soup (JStr ''Kirk'') JNull False False [] [redirect_response ''Kirk'']
     = Some (Inl (RedirectError (JStr ''Kirk'')), [])"
  using redirect_refused [of "JStr ''Kirk''" JNull scripted "[redirect_response ''Kirk'']"
      "redirect_response ''Kirk''" "[]"
      "JObj [(''redirects'', JList [JObj [(''from'', JStr ''Kirk''), (''to'', JStr ''James T. Kirk'')]]),
        (''pages'', JObj [(''42'', JObj [(''pageid'', JInt 42), (''title'', JStr ''Kirk''),
                                       (''fullurl'', JStr ''https://www.mysidia.org/trek/Kirk'')])])]"
      "JObj [(''42'', JObj [(''pageid'', JInt 42), (''title'', JStr ''Kirk''),
                                       (''fullurl'', JStr ''https://www.mysidia.org/trek/Kirk'')])]"
      "JStr ''42''" "[]"
      "JObj [(''pageid'', JInt 42), (''title'', JStr ''Kirk''),
                                       (''fullurl'', JStr ''https://www.mysidia.org/trek/Kirk'')]"
      "JStr ''Kirk''"
      "JList [JObj [(''from'', JStr ''Kirk''), (''to'', JStr ''James T. Kirk'')]]"
      "JObj [(''from'', JStr ''Kirk''), (''to'', JStr ''James T. Kirk'')]"
      "JStr ''James T. Kirk''" no_soup False "[]"]
  by (simp add: redirect_response_def scripted_def py_index_def)

text \<open>
  C1. To a query with \<^verbatim>\<open>redirects\<close> set, as \<^verbatim>\<open>__load\<close> sends it, MediaWiki answers
  for a redirect source with the \<^verbatim>\<open>redirects\<close> entry and the page of the target. On
  this response the guard does not fire: the construction with \<^verbatim>\<open>redirect=False\<close>
  raises nothing and returns the page of the target, the same result as with
  \<^verbatim>\<open>redirect=True\<close>.
\<close>

theorem redirect_flag_ignored:
  "bindR (item (redirect_response ''James T. Kirk'') ''query'') (has_key ''redirects'') = Inr True \<and>
   map_option (map_prod (map_sum id title) id)
     (MemoryTauPage scripted no_soup (JStr ''Kirk'') JNull False False []
        [redirect_response ''James T. Kirk''])
     = Some (Inr (Some (JStr ''James T. Kirk'')), []) \<and>
   MemoryTauPage scripted no_soup (JStr ''Kirk'') JNull False False []
        [redirect_response ''James T. Kirk'']
     = MemoryTauPage scripted no_soup (JStr ''Kirk'') JNull True False []
        [redirect_response ''James T. Kirk'']"
  by (simp add: MemoryTauPage_def init_def load_def load_params_def reset_facets_def blank_def
        redirected_def disambiguation_def meth_defs bindR_def py_index_def redirect_response_def
        scripted_def)

subsection \<open>The continuation engine\<close>










text \<open>
  A consumer that is a composition can be applied after the engine has run with its
  first part, provided the second part raises on none of the items.
\<close>

lemma mapR_fuse:
  "mapR g xs = Inr ys \<Longrightarrow> mapR h ys = Inr zs \<Longrightarrow> mapR (\<lambda>x. bindR (g x) h) xs = Inr zs"
proof (induction xs arbitrary: ys zs)
  case Nil
  then show ?case by auto
next
  case (Cons x xs)
  from Cons.prems(1) obtain y ys' where y: "g x = Inr y" and ys': "mapR g xs = Inr ys'"
    and ys: "ys = y # ys'"
    by (auto split: sum.splits)
  from Cons.prems(2) ys obtain z zs' where z: "h y = Inr z" and zs': "mapR h ys' = Inr zs'"
    and zs: "zs = z # zs'"
    by (auto split: sum.splits)
  from Cons.IH [OF ys' zs'] y z zs show ?case
    by (simp add: bindR_def)
qed

lemma mapR_append_eq:
  "mapR h (xs @ ys) = bindR (mapR h xs) (\<lambda>a. bindR (mapR h ys) (\<lambda>b. Inr (a @ b)))"
  by (induction xs) (simp_all add: bindR_def split: sum.splits)

lemma mapR_append:
  "mapR h (xs @ ys) = Inr zs \<longleftrightarrow> (\<exists>a b. mapR h xs = Inr a \<and> mapR h ys = Inr b \<and> zs = a @ b)"
  by (auto simp: mapR_append_eq bindR_def split: sum.splits)

lemma loop_body_fuse:
  assumes f: "\<And>items ys zs. mapR g items = Inr ys \<Longrightarrow> mapR h ys = Inr zs \<Longrightarrow> mapR f items = Inr zs"
    and s: "loop_body g qp pr pid lc ll r = Inr s"
  shows "(case s of
            Break \<Rightarrow> loop_body f qp pr pid lc ll r = Inr Break
          | Last ys \<Rightarrow> (\<forall>zs. mapR h ys = Inr zs \<longrightarrow> loop_body f qp pr pid lc ll r = Inr (Last zs))
          | More ys c n \<Rightarrow>
              (\<forall>zs. mapR h ys = Inr zs \<longrightarrow> loop_body f qp pr pid lc ll r = Inr (More zs c n)))"
  using s
  by (auto simp: loop_body_def bindR_def f split: sum.splits if_splits step.splits)

lemma continued_loop_fuse:
  fixes request :: "'w request" and g :: "json \<Rightarrow> 'a result" and h :: "'a \<Rightarrow> 'b result"
  assumes run: "continued_loop request g qp pr pid lc ll acc w = Some res"
  shows "\<forall>xs w'. res = (Inr xs, w') \<longrightarrow>
           (\<exists>more. xs = acc @ more) \<and>
           (\<forall>ys acc'. mapR h xs = Inr ys \<longrightarrow> mapR h acc = Inr acc' \<longrightarrow>
              continued_loop request (\<lambda>x. bindR (g x) h) qp pr pid lc ll acc' w = Some (Inr ys, w'))"
proof (rule continued_loop.raw_induct
    [where P = "\<lambda>request g qp pr pid lc ll acc w res.
       \<forall>xs w'. res = (Inr xs, w') \<longrightarrow>
           (\<exists>more. xs = acc @ more) \<and>
           (\<forall>ys acc'. mapR h xs = Inr ys \<longrightarrow> mapR h acc = Inr acc' \<longrightarrow>
              continued_loop request (\<lambda>x. bindR (g x) h) qp pr pid lc ll acc' w = Some (Inr ys, w'))",
     OF _ run])
  fix loop :: "'w request \<Rightarrow> (json \<Rightarrow> 'a result) \<Rightarrow> params \<Rightarrow> json \<Rightarrow> json option \<Rightarrow> json \<Rightarrow> nat
     \<Rightarrow> 'a list \<Rightarrow> 'w \<Rightarrow> ('a list result \<times> 'w) option"
  fix request :: "'w request" and g :: "json \<Rightarrow> 'a result"
  fix qp pr pid lc ll acc w res
  let ?f = "\<lambda>x. bindR (g x) h"
  assume IH: "\<And>request g qp pr pid lc ll acc w res.
      loop request g qp pr pid lc ll acc w = Some res \<Longrightarrow>
      \<forall>xs w'. res = (Inr xs, w') \<longrightarrow>
           (\<exists>more. xs = acc @ more) \<and>
           (\<forall>ys acc'. mapR h xs = Inr ys \<longrightarrow> mapR h acc = Inr acc' \<longrightarrow>
              continued_loop request (\<lambda>x. bindR (g x) h) qp pr pid lc ll acc' w = Some (Inr ys, w'))"
  assume step: "(case update_continue qp lc of
        Inl e \<Rightarrow> Some (Inl e, w)
      | Inr ps \<Rightarrow>
          (case request ps w of
             (Inl e, w') \<Rightarrow> Some (Inl e, w')
           | (Inr r, w') \<Rightarrow>
               (case loop_body g qp pr pid lc ll r of
                  Inl e \<Rightarrow> Some (Inl e, w')
                | Inr Break \<Rightarrow> Some (Inr acc, w')
                | Inr (Last ys) \<Rightarrow> Some (Inr (acc @ ys), w')
                | Inr (More ys cont n) \<Rightarrow> loop request g qp pr pid cont n (acc @ ys) w'))) = Some res"
  show "\<forall>xs w'. res = (Inr xs, w') \<longrightarrow>
           (\<exists>more. xs = acc @ more) \<and>
           (\<forall>ys acc'. mapR h xs = Inr ys \<longrightarrow> mapR h acc = Inr acc' \<longrightarrow>
              continued_loop request ?f qp pr pid lc ll acc' w = Some (Inr ys, w'))"
  proof (intro allI impI)
    fix xs w'
    assume res: "res = (Inr xs, w')"
    from step res obtain ps r w1 s where
      ps: "update_continue qp lc = Inr ps" and
      r: "request ps w = (Inr r, w1)" and s: "loop_body g qp pr pid lc ll r = Inr s"
      and rest: "(case s of Break \<Rightarrow> Some (Inr acc, w1) | Last ys \<Rightarrow> Some (Inr (acc @ ys), w1)
                  | More ys cont n \<Rightarrow> loop request g qp pr pid cont n (acc @ ys) w1)
                 = Some (Inr xs, w')"
      by (auto split: sum.splits prod.splits)
    note fuse = loop_body_fuse [where f = ?f and h = h, OF mapR_fuse s]
    show "(\<exists>more. xs = acc @ more) \<and>
           (\<forall>ys acc'. mapR h xs = Inr ys \<longrightarrow> mapR h acc = Inr acc' \<longrightarrow>
              continued_loop request ?f qp pr pid lc ll acc' w = Some (Inr ys, w'))"
    proof (cases s)
      case Break
      with rest have xs: "xs = acc" "w' = w1" by simp_all
      from fuse Break have "loop_body ?f qp pr pid lc ll r = Inr Break" by simp
      with ps r xs show ?thesis
        by (subst continued_loop.simps) simp
    next
      case (Last zs)
      with rest have xs: "xs = acc @ zs" "w' = w1" by simp_all
      from fuse Last have b: "\<And>zs'. mapR h zs = Inr zs' \<Longrightarrow> loop_body ?f qp pr pid lc ll r = Inr (Last zs')"
        by simp
      show ?thesis
      proof (intro conjI allI impI)
        show "\<exists>more. xs = acc @ more" using xs by blast
      next
        fix ys acc'
        assume "mapR h xs = Inr ys" "mapR h acc = Inr acc'"
        with xs obtain zs' where zs': "mapR h zs = Inr zs'" and ys: "ys = acc' @ zs'"
          by (auto simp: mapR_append)
        from b [OF zs'] ps r xs ys
        show "continued_loop request ?f qp pr pid lc ll acc' w = Some (Inr ys, w')"
          by (subst continued_loop.simps) simp
      qed
    next
      case (More zs c n)
      with rest have sub: "loop request g qp pr pid c n (acc @ zs) w1 = Some (Inr xs, w')" by simp
      from IH [OF sub] obtain more where xs: "xs = (acc @ zs) @ more"
        and cont: "\<And>ys acc'. mapR h xs = Inr ys \<Longrightarrow> mapR h (acc @ zs) = Inr acc' \<Longrightarrow>
              continued_loop request ?f qp pr pid c n acc' w1 = Some (Inr ys, w')"
        by blast
      from fuse More have b: "\<And>zs'. mapR h zs = Inr zs' \<Longrightarrow>
          loop_body ?f qp pr pid lc ll r = Inr (More zs' c n)"
        by simp
      show ?thesis
      proof (intro conjI allI impI)
        show "\<exists>more. xs = acc @ more" using xs by simp
      next
        fix ys acc'
        assume ys: "mapR h xs = Inr ys" and acc': "mapR h acc = Inr acc'"
        from ys xs obtain zs' where zs': "mapR h zs = Inr zs'"
          by (auto simp: mapR_append)
        with acc' have "mapR h (acc @ zs) = Inr (acc' @ zs')" by (auto simp: mapR_append)
        from cont [OF ys this] b [OF zs'] ps r
        show "continued_loop request ?f qp pr pid lc ll acc' w = Some (Inr ys, w')"
          by (subst continued_loop.simps) simp
      qed
    qed
  qed
qed

lemma continued_query_fuse:
  assumes "continued_query request g p qp w = Some (Inr xs, w')"
    and "mapR h xs = Inr ys"
  shows "continued_query request (\<lambda>x. bindR (g x) h) p qp w = Some (Inr ys, w')"
proof -
  from assms(1) obtain tq where tq: "title_query_param p = Inr tq"
    and run: "continued_loop request g (dict_update qp (dict_of tq))
            (get_prop (dict_update qp (dict_of tq))) (pageid p) (JObj []) 0 [] w = Some (Inr xs, w')"
    by (auto simp: continued_query_def split: sum.splits)
  from continued_loop_fuse [OF run, of h] assms(2)
  have "continued_loop request (\<lambda>x. bindR (g x) h) (dict_update qp (dict_of tq))
            (get_prop (dict_update qp (dict_of tq))) (pageid p) (JObj []) 0 [] w = Some (Inr ys, w')"
    by simp
  with tq show ?thesis by (simp add: continued_query_def)
qed

subsection \<open>Memoised facets\<close>



lemma summary_result:
  assumes "summary request p w = (Inr v, p', w')"
  shows "p_summary p' = v \<and> p_content p' = p_content p"
proof (cases "truthy (p_summary p)")
  case True
  with assms show ?thesis by (auto simp: summary_def meth_defs)
next
  case False
  with assms show ?thesis
    by (auto simp: summary_def meth_defs own_page_def split: sum.splits prod.splits option.splits)
qed

text \<open>
  C3. A facet whose computed value is empty is computed again by the next access:
  the guard \<^verbatim>\<open>if not getattr(self, "_content", False)\<close> reads an empty string or list
  as a facet not yet computed. Two accesses of \<^verbatim>\<open>content\<close> on a page with an empty
  extract, and two of \<^verbatim>\<open>references\<close> on a page without external links, make two
  requests each.
\<close>

theorem empty_facet_refetched:
  "(case content (counting (enterprise_response [] (JList []))) enterprise 0 of
      (r1, p1, n1) \<Rightarrow>
        (r1, n1, case content (counting (enterprise_response [] (JList []))) p1 n1 of
                   (r2, p2, n2) \<Rightarrow> (r2, n2)))
     = (Inr (JStr []), 1, Inr (JStr []), 2) \<and>
   (case references (counting (enterprise_response [] (JList []))) enterprise 0 of
      Some (r1, p1, n1) \<Rightarrow>
        Some (r1, n1, case references (counting (enterprise_response [] (JList []))) p1 n1 of
                   Some (r2, p2, n2) \<Rightarrow> Some (r2, n2) | None \<Rightarrow> None)
    | None \<Rightarrow> None)
     = Some (Inr (JList []), 1, Some (Inr (JList []), 2))"
  apply (rule conjI)
   apply (simp add: content_def own_page_def meth_defs bindR_def py_index_def fixture_defs
      title_query_param_def dict_update_def counting_def enterprise_response_def)
  apply (simp add: references_def fixture_defs engine_defs)
  apply (subst continued_loop.simps)
  apply (simp add: counting_def enterprise_response_def engine_defs references_def)
  apply (subst continued_loop.simps)
  apply (simp add: counting_def enterprise_response_def engine_defs)
  done

subsection \<open>Preloading\<close>

text \<open>
  Whenever the load, the content query and the summary query succeed, the loop of
  \<^verbatim>\<open>__init__\<close> under \<^verbatim>\<open>preload\<close> raises AttributeError at its third name.
\<close>

lemma load_ignores_preload: "load request soup redirect True = load request soup redirect False"
  by (simp add: load_def)

lemma preload_always_raises:
  assumes "init request soup title_arg pageid_arg redirect False orig blank w = Some (Inr (), p1, w1)"
    and "content request p1 w1 = (Inr c, p2, w2)"
    and "summary request p2 w2 = (Inr s, p3, w3)"
  shows "init request soup title_arg pageid_arg redirect True orig blank w
           = Some (Inl AttributeError, p3, w3)"
proof -
  from assms(1) have "init request soup title_arg pageid_arg redirect True orig blank w
      = preload_loop request preload_props p1 w1"
    by (auto simp: init_def load_ignores_preload split: sum.splits prod.splits)
  also have "\<dots> = Some (Inl AttributeError, p3, w3)"
    using assms(2,3) by (simp add: preload_props_def getattr_prop_def someM_def liftM_def)
  finally show ?thesis .
qed

lemma starship_loaded:
  "init (counting starship) no_soup (JStr ''Enterprise'') JNull True False [] blank 0
     = Some (Inr (), enterprise_loaded, 1)"
  by (simp add: init_def load_def load_params_def reset_facets_def blank_def
        redirected_def disambiguation_def meth_defs bindR_def py_index_def
        counting_def starship_def enterprise_response_def enterprise_loaded_def)

lemma starship_content:
  "content (counting starship) enterprise_loaded 1
     = (Inr (JStr ''A starship.''),
        enterprise_loaded\<lparr>p_content := JStr ''A starship.'', p_revision_id := JInt 7,
                          p_parent_id := JInt 6\<rparr>, 2)"
  by (simp add: content_def own_page_def meth_defs bindR_def py_index_def blank_def
      title_query_param_def dict_update_def counting_def starship_def enterprise_response_def
      enterprise_loaded_def)

lemma starship_summary:
  "summary (counting starship)
     (enterprise_loaded\<lparr>p_content := JStr ''A starship.'', p_revision_id := JInt 7,
                          p_parent_id := JInt 6\<rparr>) 2
     = (Inr (JStr ''A starship.''),
        enterprise_loaded\<lparr>p_content := JStr ''A starship.'', p_revision_id := JInt 7,
                          p_parent_id := JInt 6, p_summary := JStr ''A starship.''\<rparr>, 3)"
  by (simp add: summary_def own_page_def meth_defs bindR_def py_index_def blank_def
      title_query_param_def dict_update_def counting_def starship_def enterprise_response_def
      enterprise_loaded_def)

lemma starship_engine_facets:
  "drained (references (counting starship) enterprise_loaded 1) \<and>
   drained (links (counting starship) enterprise_loaded 1) \<and>
   drained (backlinks (counting starship) enterprise_loaded 1) \<and>
   drained (categories (counting starship) enterprise_loaded 1)"
  apply (intro conjI)
     apply (simp add: references_def starship_defs engine_defs)
     apply (subst continued_loop.simps)
     apply (simp add: starship_defs engine_defs add_protocol_def call_add_protocol_def startswith_def drained_def succeeds_def)
    apply (simp add: links_def starship_defs engine_defs)
    apply (subst continued_loop.simps)
    apply (simp add: starship_defs engine_defs drained_def succeeds_def)
   apply (simp add: backlinks_def starship_defs engine_defs)
   apply (subst continued_loop.simps)
   apply (simp add: starship_defs engine_defs drained_def succeeds_def)
  apply (simp add: categories_def starship_defs engine_defs)
  apply (subst continued_loop.simps)
  apply (simp add: starship_defs engine_defs drained_def succeeds_def re_sub_category_def)
  done

lemma starship_direct_facets:
  "succeeds (content (counting starship) enterprise_loaded 1) \<and>
   succeeds (summary (counting starship) enterprise_loaded 1) \<and>
   succeeds (sections (counting starship) enterprise_loaded 1) \<and>
   succeeds (html (counting starship) enterprise_loaded 1) \<and>
   succeeds (markdown (counting starship) enterprise_loaded 1)"
  by (simp add: content_def summary_def sections_def html_def markdown_def own_page_def
      meth_defs bindR_def py_index_def title_query_param_def dict_update_def starship_defs
      succeeds_def)

text \<open>
  C4. On the sample server every facet of the page can be read, and the construction
  without preload returns the page; the construction with \<^verbatim>\<open>preload=True\<close> returns no
  page: after three requests (load, content, summary) it raises AttributeError at
  \<^verbatim>\<open>getattr(self, "images")\<close>.
\<close>

theorem preload_raises_AttributeError:
  "MemoryTauPage (counting starship) no_soup (JStr ''Enterprise'') JNull True False [] 0
     = Some (Inr enterprise_loaded, 1) \<and>
   succeeds (content (counting starship) enterprise_loaded 1) \<and>
   succeeds (summary (counting starship) enterprise_loaded 1) \<and>
   drained (references (counting starship) enterprise_loaded 1) \<and>
   drained (links (counting starship) enterprise_loaded 1) \<and>
   drained (backlinks (counting starship) enterprise_loaded 1) \<and>
   drained (categories (counting starship) enterprise_loaded 1) \<and>
   succeeds (sections (counting starship) enterprise_loaded 1) \<and>
   succeeds (html (counting starship) enterprise_loaded 1) \<and>
   succeeds (markdown (counting starship) enterprise_loaded 1) \<and>
   MemoryTauPage (counting starship) no_soup (JStr ''Enterprise'') JNull True True [] 0
     = Some (Inl AttributeError, 3)"
proof -
  have "MemoryTauPage (counting starship) no_soup (JStr ''Enterprise'') JNull True True [] 0
     = Some (Inl AttributeError, 3)"
    using preload_always_raises [OF starship_loaded starship_content starship_summary]
    by (simp add: MemoryTauPage_def)
  moreover have "MemoryTauPage (counting starship) no_soup (JStr ''Enterprise'') JNull True False [] 0
     = Some (Inr enterprise_loaded, 1)"
    by (simp add: MemoryTauPage_def starship_loaded)
  ultimately show ?thesis
    using starship_engine_facets starship_direct_facets by simp
qed

subsection \<open>References\<close>

lemma mapR_call_add_protocol:
  "mapR call_add_protocol (map JStr raws) = Inr (map (\<lambda>u. JStr (add_protocol u)) raws)"
  by (induction raws) (simp_all add: call_add_protocol_def)

lemma add_protocol_cases:
  "startswith (add_protocol u) ''http'' \<and>
   (if startswith u ''http'' then add_protocol u = u else add_protocol u = ''http:'' @ u) \<and>
   (startswith u ''//'' \<longrightarrow> add_protocol u = ''http:'' @ u)"
  by (cases u; cases "tl u") (auto simp: add_protocol_def startswith_def)

text \<open>
  C6 (as amended). The references list is the list of the URLs that the engine
  drains from the external links of the server, in their order, each passed through
  \<^verbatim>\<open>add_protocol\<close>. Every entry begins with \<^verbatim>\<open>http\<close>: a URL that does not begin with
  \<^verbatim>\<open>http\<close>, as every protocol-relative URL, is returned with \<^verbatim>\<open>http:\<close> before it; a
  URL that begins with \<^verbatim>\<open>http\<close> is returned as it is.
\<close>

theorem references_add_protocol:
  assumes "\<not> truthy (p_references p)"
    and "continued_query request (\<lambda>link. item link ''*'') p
           [(JStr ''prop'', JStr ''extlinks''), (JStr ''ellimit'', JStr ''max'')] w
         = Some (Inr (map JStr raws), w')"
  shows "references request p w
           = Some (Inr (JList (map (\<lambda>u. JStr (add_protocol u)) raws)),
                   p\<lparr>p_references := JList (map (\<lambda>u. JStr (add_protocol u)) raws)\<rparr>, w') \<and>
         (\<forall>u \<in> set raws.
            startswith (add_protocol u) ''http'' \<and>
            (if startswith u ''http'' then add_protocol u = u else add_protocol u = ''http:'' @ u) \<and>
            (startswith u ''//'' \<longrightarrow> add_protocol u = ''http:'' @ u))"
proof
  from continued_query_fuse [OF assms(2) mapR_call_add_protocol]
  show "references request p w
           = Some (Inr (JList (map (\<lambda>u. JStr (add_protocol u)) raws)),
                   p\<lparr>p_references := JList (map (\<lambda>u. JStr (add_protocol u)) raws)\<rparr>, w')"
    using assms(1) by (simp add: references_def)
  show "\<forall>u \<in> set raws.
            startswith (add_protocol u) ''http'' \<and>
            (if startswith u ''http'' then add_protocol u = u else add_protocol u = ''http:'' @ u) \<and>
            (startswith u ''//'' \<longrightarrow> add_protocol u = ''http:'' @ u)"
    using add_protocol_cases by blast
qed

theorem references_add_protocol_witness:
  "references scripted enterprise
     [own_response ''extlinks'' (JList [JObj [(''*'', JStr ''https://memory-alpha.org'')],
                                       JObj [(''*'', JStr ''//example.org/warp'')]])]
   = Some (Inr (JList [JStr ''https://memory-alpha.org'', JStr ''http://example.org/warp'']),
           enterprise\<lparr>p_references :=
             JList [JStr ''https://memory-alpha.org'', JStr ''http://example.org/warp'']\<rparr>, [])"
proof -
  have fresh: "\<not> truthy (p_references enterprise)"
    by (simp add: fixture_defs)
  have run: "continued_query scripted (\<lambda>link. item link ''*'') enterprise
           [(JStr ''prop'', JStr ''extlinks''), (JStr ''ellimit'', JStr ''max'')]
     [own_response ''extlinks'' (JList [JObj [(''*'', JStr ''https://memory-alpha.org'')],
                                       JObj [(''*'', JStr ''//example.org/warp'')]])]
     = Some (Inr (map JStr [''https://memory-alpha.org'', ''//example.org/warp'']), [])"
    apply (simp add: fixture_defs engine_defs)
    apply (subst continued_loop.simps)
    apply (simp add: fixture_defs engine_defs)
    done
  from references_add_protocol [OF fresh run] show ?thesis
    by (simp add: add_protocol_def startswith_def)
qed

text \<open>A link without scheme that begins with the letters \<^verbatim>\<open>http\<close> is left bare.\<close>

theorem references_bare_counterexample:
  "map_option fst (references scripted enterprise
     [own_response ''extlinks'' (JList [JObj [(''*'', JStr ''httpbin.org/get'')]])])
   = Some (Inr (JList [JStr ''httpbin.org/get''])) \<and>
   \<not> startswith ''httpbin.org/get'' ''http:'' \<and> \<not> startswith ''httpbin.org/get'' ''https:''"
  apply (simp add: references_def fixture_defs engine_defs)
  apply (subst continued_loop.simps)
  apply (simp add: fixture_defs engine_defs add_protocol_def call_add_protocol_def startswith_def)
  done

subsection \<open>Categories\<close>

lemma mapR_re_sub_category:
  "mapR re_sub_category (map JStr ts) = Inr (map (\<lambda>t. JStr (strip_category t)) ts)"
  by (induction ts) (simp_all add: re_sub_category_def)

lemma strip_category_cases:
  "if startswith t ''Category:'' then t = ''Category:'' @ strip_category t
   else strip_category t = t"
proof (cases "startswith t ''Category:''")
  case True
  then have "take (length ''Category:'') t = ''Category:''"
    unfolding startswith_def .
  then have "''Category:'' @ drop (length ''Category:'') t = t"
    by (metis append_take_drop_id)
  then have "t = ''Category:'' @ strip_category t"
    using True unfolding strip_category_def by (simp only: if_True)
  with True show ?thesis by (simp only: if_True)
next
  case False
  then have "strip_category t = t"
    unfolding strip_category_def by (simp only: if_False)
  with False show ?thesis by (simp only: if_False)
qed

text \<open>
  C7 (as amended). Each entry of the categories list is the title that the server
  returned without one leading \<^verbatim>\<open>Category:\<close>, when the title begins with it, and the
  title itself otherwise.
\<close>

theorem categories_strip_one_prefix:
  assumes "\<not> truthy (p_categories p)"
    and "continued_query request (\<lambda>link. item link ''title'') p
           [(JStr ''prop'', JStr ''categories''), (JStr ''cllimit'', JStr ''max'')] w
         = Some (Inr (map JStr ts), w')"
  shows "categories request p w
           = Some (Inr (JList (map (\<lambda>t. JStr (strip_category t)) ts)),
                   p\<lparr>p_categories := JList (map (\<lambda>t. JStr (strip_category t)) ts)\<rparr>, w') \<and>
         (\<forall>t \<in> set ts. if startswith t ''Category:''
                         then t = ''Category:'' @ strip_category t
                         else strip_category t = t)"
proof
  show "categories request p w
           = Some (Inr (JList (map (\<lambda>t. JStr (strip_category t)) ts)),
                   p\<lparr>p_categories := JList (map (\<lambda>t. JStr (strip_category t)) ts)\<rparr>, w')"
    using assms by (simp add: categories_def mapR_re_sub_category)
  show "\<forall>t \<in> set ts. if startswith t ''Category:''
                         then t = ''Category:'' @ strip_category t
                         else strip_category t = t"
    using strip_category_cases by blast
qed

theorem categories_strip_one_prefix_witness:
  "categories scripted enterprise
     [own_response ''categories''
        (JList [JObj [(''ns'', JInt 14), (''title'', JStr ''Category:Starships'')],
                JObj [(''ns'', JInt 14), (''title'', JStr ''Federation'')]])]
   = Some (Inr (JList [JStr ''Starships'', JStr ''Federation'']),
           enterprise\<lparr>p_categories := JList [JStr ''Starships'', JStr ''Federation'']\<rparr>, [])"
proof -
  have fresh: "\<not> truthy (p_categories enterprise)"
    by (simp add: fixture_defs)
  have run: "continued_query scripted (\<lambda>link. item link ''title'') enterprise
           [(JStr ''prop'', JStr ''categories''), (JStr ''cllimit'', JStr ''max'')]
     [own_response ''categories''
        (JList [JObj [(''ns'', JInt 14), (''title'', JStr ''Category:Starships'')],
                JObj [(''ns'', JInt 14), (''title'', JStr ''Federation'')]])]
     = Some (Inr (map JStr [''Category:Starships'', ''Federation'']), [])"
    apply (simp add: fixture_defs engine_defs)
    apply (subst continued_loop.simps)
    apply (simp add: fixture_defs engine_defs)
    done
  from categories_strip_one_prefix [OF fresh run] show ?thesis
    by (simp add: strip_category_def startswith_def)
qed

text \<open>Of a doubled prefix, one remains.\<close>

theorem categories_prefix_counterexample:
  "map_option fst (categories scripted enterprise
     [own_response ''categories'' (JList [JObj [(''ns'', JInt 14),
                                               (''title'', JStr ''Category:Category:Starships'')]])])
   = Some (Inr (JList [JStr ''Category:Starships''])) \<and>
   startswith ''Category:Starships'' ''Category:''"
  apply (simp add: categories_def fixture_defs engine_defs)
  apply (subst continued_loop.simps)
  apply (simp add: fixture_defs engine_defs re_sub_category_def strip_category_def startswith_def)
  done

subsection \<open>The text of one section\<close>




end
